theory Spec2Isabelle
  imports Complex_Main
begin

section \<open>Values\<close>

text \<open>
  The scanner (\<^verbatim>\<open>app.py\<close>) computes with numpy \<^verbatim>\<open>float64\<close> scalars. Rounding is not
  modelled: a finite float is a real number. What is modelled is the part of IEEE arithmetic
  that decides control flow in the script: a division by zero does not raise, it yields an
  infinity or NaN, and every comparison with NaN is false.
\<close>

datatype fval = Fin real | PosInf | NegInf | NaN

text \<open>\<^verbatim>\<open>a / b\<close> for two finite numpy scalars.\<close>

definition np_div :: "real \<Rightarrow> real \<Rightarrow> fval" where
  "np_div a b =
     (if b \<noteq> 0 then Fin (a / b)
      else if 0 < a then PosInf
      else if a < 0 then NegInf
      else NaN)"

text \<open>\<^verbatim>\<open>x * 100\<close>.\<close>

fun times100 :: "fval \<Rightarrow> fval" where
  "times100 (Fin x) = Fin (x * 100)"
| "times100 PosInf = PosInf"
| "times100 NegInf = NegInf"
| "times100 NaN = NaN"

text \<open>\<^verbatim>\<open>x >= c\<close> and \<^verbatim>\<open>x > c\<close> for a finite constant \<open>c\<close>.\<close>

fun fge :: "fval \<Rightarrow> real \<Rightarrow> bool" where
  "fge (Fin x) c = (c \<le> x)"
| "fge PosInf c = True"
| "fge NegInf c = False"
| "fge NaN c = False"

fun fgt :: "fval \<Rightarrow> real \<Rightarrow> bool" where
  "fgt (Fin x) c = (c < x)"
| "fgt PosInf c = True"
| "fgt NegInf c = False"
| "fgt NaN c = False"

text \<open>\<^verbatim>\<open>c > x\<close> for a finite \<open>c\<close> on the left.\<close>

fun gt_fval :: "real \<Rightarrow> fval \<Rightarrow> bool" where
  "gt_fval c (Fin x) = (x < c)"
| "gt_fval c PosInf = False"
| "gt_fval c NegInf = True"
| "gt_fval c NaN = False"

text \<open>\<^verbatim>\<open>v / x\<close> for a finite \<open>v\<close> and any \<open>x\<close>.\<close>

fun div_fval :: "real \<Rightarrow> fval \<Rightarrow> fval" where
  "div_fval v (Fin a) = np_div v a"
| "div_fval v PosInf = Fin 0"
| "div_fval v NegInf = Fin 0"
| "div_fval v NaN = NaN"

section \<open>Exceptions\<close>

datatype exn_kind = IndexError | KeyError | AttributeError | ProviderError

datatype exn = Exn exn_kind string

fun str_exn :: "exn \<Rightarrow> string" where
  "str_exn (Exn k m) = m"

definition bnd :: "exn + 'a \<Rightarrow> ('a \<Rightarrow> exn + 'b) \<Rightarrow> exn + 'b" where
  "bnd m f = (case m of Inl e \<Rightarrow> Inl e | Inr x \<Rightarrow> f x)"

text \<open>\<^verbatim>\<open>str(KeyError(k))\<close> is the key in single quotes.\<close>

definition key_error :: "string \<Rightarrow> exn" where
  "key_error k = Exn KeyError ([CHR 0x27] @ k @ [CHR 0x27])"

section \<open>Price frames\<close>

text \<open>
  One row of the frame \<^verbatim>\<open>yf.download\<close> returns: the index entry (the day, as a day number) and
  the five columns the script reads. The frame is the list of its rows in index order. As in
  the specification's data model, the five values of a row are numbers (no missing values),
  and the columns are the plain names the script indexes with.
\<close>

record bar =
  Date :: int
  Open :: real
  High :: real
  Low :: real
  Close :: real
  Volume :: real

text \<open>\<^verbatim>\<open>d in df.index\<close>.\<close>

definition index_contains :: "bar list \<Rightarrow> int \<Rightarrow> bool" where
  "index_contains df d = (d \<in> set (map Date df))"

text \<open>
  \<^verbatim>\<open>df.loc[d]\<close>: the row labelled \<open>d\<close> (labels of a daily frame are distinct), \<^verbatim>\<open>KeyError\<close>
  when there is none.
\<close>

definition loc :: "bar list \<Rightarrow> int \<Rightarrow> exn + bar" where
  "loc df d =
     (case find (\<lambda>b. Date b = d) df of
        None \<Rightarrow> Inl (key_error ''Timestamp'')
      | Some b \<Rightarrow> Inr b)"

text \<open>
  Positional access \<^verbatim>\<open>xs.iloc[i]\<close> (and \<^verbatim>\<open>index[i]\<close>): a negative position counts from the
  end, a position outside the frame raises \<^verbatim>\<open>IndexError\<close>.
\<close>

definition iloc :: "'a list \<Rightarrow> int \<Rightarrow> exn + 'a" where
  "iloc xs i =
     (if 0 \<le> i \<and> i < int (length xs) then Inr (xs ! nat i)
      else if i < 0 \<and> - int (length xs) \<le> i then Inr (xs ! nat (int (length xs) + i))
      else Inl (Exn IndexError ''single positional indexer is out-of-bounds''))"

text \<open>
  \<^verbatim>\<open>s.rolling(window=w).mean()\<close> on a column without missing values: position \<open>i\<close> holds
  the mean of the \<open>w\<close> values ending at \<open>i\<close>, and NaN while fewer than \<open>w\<close> values are
  available (\<^verbatim>\<open>min_periods\<close> defaults to the window).
\<close>

definition rolling_mean :: "nat \<Rightarrow> real list \<Rightarrow> fval list" where
  "rolling_mean w xs =
     map (\<lambda>i. if i + 1 < w then NaN
               else Fin (sum_list (take w (drop (i + 1 - w) xs)) / real w))
         [0..<length xs]"

section \<open>The per-symbol metrics of \<^verbatim>\<open>analyze_stock\<close>\<close>

text \<open>Line 83: the last row before the analysis date, \<^verbatim>\<open>None\<close> when the first row is not before it.\<close>

definition prev_day :: "bar list \<Rightarrow> int \<Rightarrow> exn + bar option" where
  "prev_day data ad =
     bnd (iloc (map Date data) 0) (\<lambda>d0.
       if d0 < ad
       then bnd (iloc (filter (\<lambda>b. Date b < ad) data) (- 1)) (\<lambda>p. Inr (Some p))
       else Inr None)"

text \<open>Line 86.\<close>

definition pct_change :: "bar \<Rightarrow> fval" where
  "pct_change today = times100 (np_div (Close today - Open today) (Open today))"

text \<open>Line 87.\<close>

definition pct_close_near_high :: "bar \<Rightarrow> fval" where
  "pct_close_near_high today =
     (if High today \<noteq> Low today
      then times100 (np_div (Close today - Low today) (High today - Low today))
      else Fin 0)"

text \<open>Line 88.\<close>

definition close_above_prev_high :: "bar \<Rightarrow> bar option \<Rightarrow> bool" where
  "close_above_prev_high today prev =
     (case prev of Some p \<Rightarrow> High p < Close today | None \<Rightarrow> False)"

text \<open>Line 91.\<close>

definition avg_volume :: "bar list \<Rightarrow> exn + fval" where
  "avg_volume data = iloc (rolling_mean 10 (map Volume data)) (- 2)"

text \<open>Line 92.\<close>

definition volume_spike :: "bar \<Rightarrow> fval \<Rightarrow> fval" where
  "volume_spike today avg = (if fgt avg 0 then div_fval (Volume today) avg else Fin 0)"

text \<open>Line 95.\<close>

definition intraday_range_pct :: "bar \<Rightarrow> fval" where
  "intraday_range_pct today = times100 (np_div (High today - Low today) (Open today))"

section \<open>The indicator library\<close>

text \<open>
  \<^verbatim>\<open>pandas_ta\<close> is not part of the repository, so the three calls the script makes are
  parameters. A call returns \<^verbatim>\<open>None\<close> or a series (\<^verbatim>\<open>ta.rsi\<close>) or frame (\<^verbatim>\<open>ta.macd\<close>,
  \<^verbatim>\<open>ta.bbands\<close>); a frame is the list of its rows, a row maps column names to values.
\<close>

type_synonym row = "(string \<times> fval) list"

record ta_lib =
  ta_rsi :: "real list \<Rightarrow> nat \<Rightarrow> fval list option"
  ta_macd :: "real list \<Rightarrow> row list option"
  ta_bbands :: "real list \<Rightarrow> nat \<Rightarrow> row list option"

text \<open>\<^verbatim>\<open>r.iloc[-1]\<close> on the result of a library call: \<^verbatim>\<open>None\<close> has no \<^verbatim>\<open>iloc\<close>.\<close>

definition iloc_last :: "'a list option \<Rightarrow> exn + 'a" where
  "iloc_last r =
     (case r of
        None \<Rightarrow> Inl (Exn AttributeError
          ([CHR 0x27] @ ''NoneType'' @ [CHR 0x27] @ '' object has no attribute '' @
           [CHR 0x27] @ ''iloc'' @ [CHR 0x27]))
      | Some xs \<Rightarrow> iloc xs (- 1))"

text \<open>\<^verbatim>\<open>row[k]\<close>.\<close>

definition getitem :: "row \<Rightarrow> string \<Rightarrow> exn + fval" where
  "getitem r k = (case map_of r k of None \<Rightarrow> Inl (key_error k) | Some v \<Rightarrow> Inr v)"

section \<open>\<^verbatim>\<open>analyze_stock\<close>\<close>

text \<open>The dictionary returned at lines 107--127, one field per key.\<close>

record analysis_record =
  Symbol :: string
  Open_today :: real
  High_today :: real
  Low_today :: real
  Close_today :: real
  Volume_today :: real
  Avg_Volume_10D :: fval
  Pct_Price_Change :: fval
  Pct_Close_Near_High :: fval
  Close_gt_Prev_High :: bool
  Volume_Spike :: fval
  Intraday_Range_Pct :: fval
  RSI_14 :: fval
  MACD :: fval
  MACD_Signal :: fval
  BB_Upper :: fval
  BB_Middle :: fval
  BB_Lower :: fval
  Close_gt_BB_Upper :: bool

text \<open>The market data provider: \<^verbatim>\<open>yf.download(symbol, start, end)\<close>.\<close>

type_synonym provider = "string \<Rightarrow> int \<Rightarrow> int \<Rightarrow> exn + bar list"

text \<open>
  The body of the \<^verbatim>\<open>try\<close> block, lines 73--127, statement by statement. \<open>Inr None\<close> is the
  \<^verbatim>\<open>return None\<close> of line 80, \<open>Inl e\<close> an exception raised on the way.
\<close>

definition analyze_body ::
  "ta_lib \<Rightarrow> provider \<Rightarrow> string \<Rightarrow> int \<Rightarrow> exn + analysis_record option" where
  "analyze_body lib yf_download symbol analysis_date =
     bnd (yf_download symbol (analysis_date - 60) (analysis_date + 1)) (\<lambda>data.
     if \<not> index_contains data analysis_date then Inr None
     else
     bnd (loc data analysis_date) (\<lambda>today.
     bnd (prev_day data analysis_date) (\<lambda>prev.
     bnd (avg_volume data) (\<lambda>avg.
     bnd (iloc_last (ta_rsi lib (map Close data) 14)) (\<lambda>rsi.
     bnd (iloc_last (ta_macd lib (map Close data))) (\<lambda>macd.
     bnd (iloc_last (ta_bbands lib (map Close data) 20)) (\<lambda>bb.
     bnd (getitem macd ''MACD_12_26_9'') (\<lambda>macd_line.
     bnd (getitem macd ''MACDs_9'') (\<lambda>macd_signal.
     bnd (getitem bb ''BBU_20_2.0'') (\<lambda>bbu.
     bnd (getitem bb ''BBM_20_2.0'') (\<lambda>bbm.
     bnd (getitem bb ''BBL_20_2.0'') (\<lambda>bbl.
     bnd (getitem bb ''BBU_20_2.0'') (\<lambda>bbu'.
       Inr (Some \<lparr>
         Symbol = symbol,
         Open_today = Open today,
         High_today = High today,
         Low_today = Low today,
         Close_today = Close today,
         Volume_today = Volume today,
         Avg_Volume_10D = avg,
         Pct_Price_Change = pct_change today,
         Pct_Close_Near_High = pct_close_near_high today,
         Close_gt_Prev_High = close_above_prev_high today prev,
         Volume_Spike = volume_spike today avg,
         Intraday_Range_Pct = intraday_range_pct today,
         RSI_14 = rsi,
         MACD = macd_line,
         MACD_Signal = macd_signal,
         BB_Upper = bbu,
         BB_Middle = bbm,
         BB_Lower = bbl,
         Close_gt_BB_Upper = gt_fval (Close today) bbu' \<rparr>))))))))))))))"

text \<open>Line 129: the message \<^verbatim>\<open>st.write\<close> shows.\<close>

definition error_message :: "string \<Rightarrow> exn \<Rightarrow> string" where
  "error_message symbol e = ''Error analyzing '' @ symbol @ '': '' @ str_exn e"

text \<open>
  The whole function: the \<^verbatim>\<open>try\<close> block under its \<^verbatim>\<open>except Exception\<close>. It returns the
  record or \<^verbatim>\<open>None\<close>, and the lines it wrote to the page.
\<close>

definition analyze_stock ::
  "ta_lib \<Rightarrow> provider \<Rightarrow> string \<Rightarrow> int \<Rightarrow> analysis_record option \<times> string list" where
  "analyze_stock lib yf_download symbol analysis_date =
     (case analyze_body lib yf_download symbol analysis_date of
        Inr result \<Rightarrow> (result, [])
      | Inl e \<Rightarrow> (None, [error_message symbol e]))"

section \<open>The scan\<close>

text \<open>Lines 134--140: one pass of the loop, and the loop over the symbols in input order.\<close>

definition scan_step ::
  "ta_lib \<Rightarrow> provider \<Rightarrow> int \<Rightarrow> analysis_record list \<times> string list \<Rightarrow> string
     \<Rightarrow> analysis_record list \<times> string list" where
  "scan_step lib yf_download analysis_date acc symbol =
     (case analyze_stock lib yf_download symbol analysis_date of
        (Some result, written) \<Rightarrow> (fst acc @ [result], snd acc @ written)
      | (None, written) \<Rightarrow> (fst acc, snd acc @ written))"

definition scan_symbols ::
  "ta_lib \<Rightarrow> provider \<Rightarrow> int \<Rightarrow> string list \<Rightarrow> analysis_record list \<times> string list" where
  "scan_symbols lib yf_download analysis_date symbols =
     foldl (scan_step lib yf_download analysis_date) ([], []) symbols"

text \<open>Lines 147--153, the mask, row by row; line 155, the rows the mask selects.\<close>

definition btst_criteria :: "fval \<Rightarrow> analysis_record \<Rightarrow> bool" where
  "btst_criteria idx_pct_change r =
     (fge (Pct_Price_Change r) 2 \<and>
      fge (Volume_Spike r) 2 \<and>
      fge (Pct_Close_Near_High r) 70 \<and>
      Close_gt_Prev_High r = True \<and>
      fge idx_pct_change 0)"

definition btst_stocks :: "fval \<Rightarrow> analysis_record list \<Rightarrow> analysis_record list" where
  "btst_stocks idx_pct_change df = filter (btst_criteria idx_pct_change) df"

text \<open>Line 67.\<close>

definition idx_pct_change_of :: "bar \<Rightarrow> fval" where
  "idx_pct_change_of idx = times100 (np_div (Close idx - Open idx) (Open idx))"

text \<open>
  The script from line 56 on. It ends in one of four ways: the index fetch raises (nothing
  catches it), the index has no row for the date (\<^verbatim>\<open>st.warning\<close> and \<^verbatim>\<open>st.stop()\<close>, lines
  58--60), no symbol gave a record (line 221), or the two tables are shown.
\<close>

datatype outcome =
    Crashed exn
  | Stopped_No_Index_Data
  | No_Results "string list"
  | Tables fval "analysis_record list" "analysis_record list" "string list"

definition run_scan :: "ta_lib \<Rightarrow> provider \<Rightarrow> string list \<Rightarrow> int \<Rightarrow> outcome" where
  "run_scan lib yf_download symbols analysis_date =
     (case yf_download ''^NSEI'' analysis_date (analysis_date + 1) of
        Inl e \<Rightarrow> Crashed e
      | Inr index_data \<Rightarrow>
          if \<not> index_contains index_data analysis_date then Stopped_No_Index_Data
          else
            (case loc index_data analysis_date of
               Inl e \<Rightarrow> Crashed e
             | Inr idx \<Rightarrow>
                 (let idx_pct_change = idx_pct_change_of idx;
                      (results, written) = scan_symbols lib yf_download analysis_date symbols
                  in if results \<noteq> []
                     then Tables idx_pct_change results (btst_stocks idx_pct_change results) written
                     else No_Results written)))"

section \<open>The provider's contract and the specified average\<close>

text \<open>
  What the script relies on when it reads the window by position: the rows are in strictly
  increasing date order and lie in the half-open range \<open>[start, end)\<close> that was asked for.
\<close>

definition window_ok :: "bar list \<Rightarrow> int \<Rightarrow> int \<Rightarrow> bool" where
  "window_ok data start end =
     (sorted_wrt (<) (map Date data) \<and>
      list_all (\<lambda>b. start \<le> Date b \<and> Date b < end) data)"

text \<open>The rows strictly before the analysis date.\<close>

definition prior_bars :: "bar list \<Rightarrow> int \<Rightarrow> bar list" where
  "prior_bars data ad = filter (\<lambda>b. Date b < ad) data"

text \<open>
  The specification's \<open>avg_volume_10d\<close>: the arithmetic mean of Volume over the 10 bars ending
  at the bar immediately before the analysis date, when the window holds 10 such bars.
\<close>

definition mean_volume_10d_before :: "bar list \<Rightarrow> int \<Rightarrow> real option" where
  "mean_volume_10d_before data ad =
     (let prior = prior_bars data ad
      in if 10 \<le> length prior
         then Some (sum_list (map Volume (drop (length prior - 10) prior)) / 10)
         else None)"

section \<open>A sample market\<close>

text \<open>
  Concrete inputs for the theorems below. Symbol \<open>X\<close> is the scenario of the specification
  (Open 100, High 110, Low 98, Close 108, Volume 500000 on the analysis date, day 12; the day
  before has High 105, and the ten days before the analysis date trade 200000 each); \<open>Y\<close> has
  no row on day 12; \<open>Z\<close> has the row of day 12 and nothing earlier; \<open>Q\<close> did not trade on the
  ten days before day 12; \<open>BAD\<close> makes the provider raise.
\<close>

definition flat_bar :: "int \<Rightarrow> real \<Rightarrow> bar" where
  "flat_bar d v = \<lparr>Date = d, Open = 100, High = 105, Low = 95, Close = 100, Volume = v\<rparr>"

definition sample_history :: "string \<Rightarrow> bar list" where
  "sample_history symbol =
     (if symbol = ''X'' then
        [flat_bar 1 999999, flat_bar 2 200000, flat_bar 3 200000, flat_bar 4 200000,
         flat_bar 5 200000, flat_bar 6 200000, flat_bar 7 200000, flat_bar 8 200000,
         flat_bar 9 200000, flat_bar 10 200000, flat_bar 11 200000,
         \<lparr>Date = 12, Open = 100, High = 110, Low = 98, Close = 108, Volume = 500000\<rparr>,
         flat_bar 13 300000]
      else if symbol = ''Y'' then [flat_bar 10 1000, flat_bar 11 1000, flat_bar 13 1000]
      else if symbol = ''Z'' then [flat_bar 12 1000]
      else if symbol = ''Q'' then
        [flat_bar 2 0, flat_bar 3 0, flat_bar 4 0, flat_bar 5 0, flat_bar 6 0, flat_bar 7 0,
         flat_bar 8 0, flat_bar 9 0, flat_bar 10 0, flat_bar 11 0, flat_bar 12 5000]
      else if symbol = ''^NSEI'' then
        [\<lparr>Date = 11, Open = 20000, High = 20100, Low = 19900, Close = 19940, Volume = 0\<rparr>,
         \<lparr>Date = 12, Open = 20000, High = 20200, Low = 19950, Close = 20100, Volume = 0\<rparr>]
      else [])"

definition sample_provider :: provider where
  "sample_provider symbol start end =
     (if symbol = ''BAD'' then Inl (Exn ProviderError ''download failed'')
      else Inr (filter (\<lambda>b. start \<le> Date b \<and> Date b < end) (sample_history symbol)))"

text \<open>
  A stand-in for the indicator library that returns constant series carrying every column
  the script reads.
\<close>

definition sample_lib :: ta_lib where
  "sample_lib =
     \<lparr>ta_rsi = (\<lambda>closes n. Some (map (\<lambda>c. Fin 60) closes)),
      ta_macd = (\<lambda>closes. Some (map (\<lambda>c.
         [(''MACD_12_26_9'', Fin 1), (''MACDh_12_26_9'', Fin (1/2)), (''MACDs_9'', Fin (1/2))])
         closes)),
      ta_bbands = (\<lambda>closes n. Some (map (\<lambda>c.
         [(''BBL_20_2.0'', Fin 90), (''BBM_20_2.0'', Fin 100), (''BBU_20_2.0'', Fin 110)])
         closes))\<rparr>"

text \<open>
  The same library with the MACD frame's columns named the way \<^verbatim>\<open>pandas_ta\<close> names them:
  all three carry the full parameter suffix (\<^verbatim>\<open>MACD_12_26_9\<close>, \<^verbatim>\<open>MACDh_12_26_9\<close>,
  \<^verbatim>\<open>MACDs_12_26_9\<close>).
\<close>

definition suffixed_lib :: ta_lib where
  "suffixed_lib =
     sample_lib \<lparr>ta_macd := (\<lambda>closes. Some (map (\<lambda>c.
         [(''MACD_12_26_9'', Fin 1), (''MACDh_12_26_9'', Fin (1/2)),
          (''MACDs_12_26_9'', Fin (1/2))])
         closes))\<rparr>"

text \<open>The same market on a day the index falls 0.3 per cent.\<close>

definition falling_provider :: provider where
  "falling_provider symbol start end =
     (if symbol = ''^NSEI'' then
        Inr (filter (\<lambda>b. start \<le> Date b \<and> Date b < end)
          [\<lparr>Date = 12, Open = 20000, High = 20050, Low = 19900, Close = 19940, Volume = 0\<rparr>])
      else sample_provider symbol start end)"

text \<open>The window the provider returns for \<open>X\<close> on day 12, and the records of \<open>X\<close> and \<open>Q\<close>.\<close>

definition sample_X_rows :: "bar list" where
  "sample_X_rows =
     [flat_bar 1 999999, flat_bar 2 200000, flat_bar 3 200000, flat_bar 4 200000,
      flat_bar 5 200000, flat_bar 6 200000, flat_bar 7 200000, flat_bar 8 200000,
      flat_bar 9 200000, flat_bar 10 200000, flat_bar 11 200000,
      \<lparr>Date = 12, Open = 100, High = 110, Low = 98, Close = 108, Volume = 500000\<rparr>]"

definition sample_X_record :: analysis_record where
  "sample_X_record =
     \<lparr>Symbol = ''X'',
      Open_today = 100, High_today = 110, Low_today = 98, Close_today = 108,
      Volume_today = 500000,
      Avg_Volume_10D = Fin 200000,
      Pct_Price_Change = Fin 8,
      Pct_Close_Near_High = Fin (250 / 3),
      Close_gt_Prev_High = True,
      Volume_Spike = Fin (5 / 2),
      Intraday_Range_Pct = Fin 12,
      RSI_14 = Fin 60, MACD = Fin 1, MACD_Signal = Fin (1 / 2),
      BB_Upper = Fin 110, BB_Middle = Fin 100, BB_Lower = Fin 90,
      Close_gt_BB_Upper = False\<rparr>"

definition sample_Q_record :: analysis_record where
  "sample_Q_record =
     \<lparr>Symbol = ''Q'',
      Open_today = 100, High_today = 105, Low_today = 95, Close_today = 100,
      Volume_today = 5000,
      Avg_Volume_10D = Fin 0,
      Pct_Price_Change = Fin 0,
      Pct_Close_Near_High = Fin 50,
      Close_gt_Prev_High = False,
      Volume_Spike = Fin 0,
      Intraday_Range_Pct = Fin 10,
      RSI_14 = Fin 60, MACD = Fin 1, MACD_Signal = Fin (1 / 2),
      BB_Upper = Fin 110, BB_Middle = Fin 100, BB_Lower = Fin 90,
      Close_gt_BB_Upper = False\<rparr>"

section \<open>Basic facts\<close>

lemma bnd_Inr_iff: "bnd m f = Inr y \<longleftrightarrow> (\<exists>x. m = Inr x \<and> f x = Inr y)"
  by (cases m) (simp_all add: bnd_def)

lemma bnd_Inl_iff: "bnd m f = Inl e \<longleftrightarrow> (m = Inl e \<or> (\<exists>x. m = Inr x \<and> f x = Inl e))"
  by (cases m) (simp_all add: bnd_def)

lemma find_snoc:
  "\<forall>y \<in> set xs. \<not> P y \<Longrightarrow> P x \<Longrightarrow> find P (xs @ [x]) = Some x"
  by (induction xs) simp_all

lemma loc_InrD: "loc df d = Inr b \<Longrightarrow> b \<in> set df \<and> Date b = d"
  by (auto simp: loc_def find_Some_iff split: option.splits)

lemma loc_total: "index_contains df d \<Longrightarrow> \<exists>b. loc df d = Inr b"
  by (auto simp: loc_def index_contains_def find_None_iff split: option.splits)

lemma loc_index_contains: "loc df d = Inr b \<Longrightarrow> index_contains df d"
  by (auto simp: index_contains_def dest: loc_InrD)

text \<open>In a well-formed window that holds the analysis date, its row is the last one.\<close>

lemma window_split:
  assumes ok: "window_ok data start (ad + 1)" and has: "index_contains data ad"
  shows "\<exists>today. data = prior_bars data ad @ [today] \<and> Date today = ad \<and>
           loc data ad = Inr today"
proof -
  from has have ne: "data \<noteq> []" by (auto simp: index_contains_def)
  define xs where "xs = butlast data"
  define x where "x = last data"
  from ne have data: "data = xs @ [x]" by (simp add: xs_def x_def)
  from ok have "sorted_wrt (<) (map Date (xs @ [x]))"
    by (simp add: window_ok_def data)
  then have below: "\<forall>y \<in> set xs. Date y < Date x"
    by (simp add: sorted_wrt_append)
  from ok have "Date x < ad + 1"
    by (simp add: window_ok_def data)
  moreover from has below have "ad \<le> Date x"
    by (auto simp: index_contains_def data)
  ultimately have dx: "Date x = ad" by simp
  from below dx have "prior_bars data ad = xs"
    by (simp add: prior_bars_def data)
  moreover have "find (\<lambda>b. Date b = ad) (xs @ [x]) = Some x"
    using below dx by (intro find_snoc) auto
  then have "loc data ad = Inr x"
    by (simp add: loc_def data)
  ultimately show ?thesis using data dx by auto
qed

lemma rolling_mean_length: "length (rolling_mean w xs) = length xs"
  by (simp add: rolling_mean_def)

lemma rolling_mean_nth:
  "i < length xs \<Longrightarrow>
     rolling_mean w xs ! i =
       (if i + 1 < w then NaN else Fin (sum_list (take w (drop (i + 1 - w) xs)) / real w))"
  by (simp add: rolling_mean_def)

lemma avg_volume_snoc:
  assumes "xs \<noteq> []"
  shows "avg_volume (xs @ [x]) =
           Inr (if length xs < 10 then NaN
                else Fin (sum_list (map Volume (drop (length xs - 10) xs)) / 10))"
proof -
  from assms obtain n where n: "length xs = Suc n" by (cases xs) auto
  have idx: "nat (int (length (xs @ [x])) + (- 2)) = n" using n by simp
  have "avg_volume (xs @ [x]) = Inr (rolling_mean 10 (map Volume (xs @ [x])) ! n)"
    using n by (simp add: avg_volume_def iloc_def rolling_mean_length Let_def)
  also have "rolling_mean 10 (map Volume (xs @ [x])) ! n =
      (if n + 1 < 10 then NaN
       else Fin (sum_list (take 10 (drop (n + 1 - 10) (map Volume (xs @ [x])))) / real 10))"
    using n by (subst rolling_mean_nth) simp_all
  also have "\<dots> = (if length xs < 10 then NaN
                else Fin (sum_list (map Volume (drop (length xs - 10) xs)) / 10))"
    using n by (simp add: drop_map)
  finally show ?thesis .
qed

lemma avg_volume_single: "avg_volume [b] = Inl (Exn IndexError ''single positional indexer is out-of-bounds'')"
  by (simp add: avg_volume_def iloc_def rolling_mean_def)

lemma avg_volume_cases: "avg_volume data = Inr v \<Longrightarrow> v = NaN \<or> (\<exists>a. v = Fin a)"
  by (auto simp: avg_volume_def iloc_def Let_def rolling_mean_length rolling_mean_nth split: if_splits)


text \<open>What a returned record says about the run that produced it.\<close>

lemma analyze_body_SomeD:
  assumes "analyze_body lib yf symbol ad = Inr (Some r)"
  shows "\<exists>data today prev avg macd.
           yf symbol (ad - 60) (ad + 1) = Inr data \<and> index_contains data ad \<and>
           loc data ad = Inr today \<and> prev_day data ad = Inr prev \<and>
           avg_volume data = Inr avg \<and>
           iloc_last (ta_macd lib (map Close data)) = Inr macd \<and>
           getitem macd ''MACD_12_26_9'' = Inr (MACD r) \<and>
           getitem macd ''MACDs_9'' = Inr (MACD_Signal r) \<and>
           Symbol r = symbol \<and> Open_today r = Open today \<and> High_today r = High today \<and>
           Low_today r = Low today \<and> Close_today r = Close today \<and>
           Volume_today r = Volume today \<and>
           Avg_Volume_10D r = avg \<and>
           Pct_Price_Change r = pct_change today \<and>
           Pct_Close_Near_High r = pct_close_near_high today \<and>
           Close_gt_Prev_High r = close_above_prev_high today prev \<and>
           Volume_Spike r = volume_spike today avg \<and>
           Intraday_Range_Pct r = intraday_range_pct today"
  using assms unfolding analyze_body_def
  by (auto simp: bnd_Inr_iff split: if_splits)

section \<open>The loop\<close>

lemma scan_foldl_acc:
  "foldl (scan_step lib yf ad) acc xs =
     (fst acc @ fst (foldl (scan_step lib yf ad) ([], []) xs),
      snd acc @ snd (foldl (scan_step lib yf ad) ([], []) xs))"
proof (induction xs rule: rev_induct)
  case Nil
  show ?case by simp
next
  case (snoc x xs)
  then show ?case
    by (simp add: scan_step_def split: prod.splits option.splits)
qed

lemma scan_symbols_Nil: "scan_symbols lib yf ad [] = ([], [])"
  by (simp add: scan_symbols_def)

lemma scan_symbols_single:
  "scan_symbols lib yf ad [s] =
     (case fst (analyze_stock lib yf s ad) of Some r \<Rightarrow> [r] | None \<Rightarrow> [],
      snd (analyze_stock lib yf s ad))"
  by (simp add: scan_symbols_def scan_step_def split: prod.splits option.splits)

lemma scan_symbols_append:
  "scan_symbols lib yf ad (xs @ ys) =
     (fst (scan_symbols lib yf ad xs) @ fst (scan_symbols lib yf ad ys),
      snd (scan_symbols lib yf ad xs) @ snd (scan_symbols lib yf ad ys))"
  unfolding scan_symbols_def foldl_append
  by (subst scan_foldl_acc) simp

lemma scan_symbols_Cons:
  "scan_symbols lib yf ad (s # ss) =
     ((case fst (analyze_stock lib yf s ad) of Some r \<Rightarrow> [r] | None \<Rightarrow> []) @
        fst (scan_symbols lib yf ad ss),
      snd (analyze_stock lib yf s ad) @ snd (scan_symbols lib yf ad ss))"
  using scan_symbols_append [of lib yf ad "[s]" ss]
  by (simp add: scan_symbols_single)

lemma analyze_stock_SomeD:
  "fst (analyze_stock lib yf s ad) = Some r \<Longrightarrow> analyze_body lib yf s ad = Inr (Some r)"
  by (auto simp: analyze_stock_def split: sum.splits)

lemma scan_symbols_results:
  "r \<in> set (fst (scan_symbols lib yf ad symbols)) \<Longrightarrow>
     \<exists>s \<in> set symbols. analyze_body lib yf s ad = Inr (Some r)"
proof (induction symbols)
  case Nil
  then show ?case by (simp add: scan_symbols_Nil)
next
  case (Cons s ss)
  from Cons.prems consider
    (head) "fst (analyze_stock lib yf s ad) = Some r"
    | (tail) "r \<in> set (fst (scan_symbols lib yf ad ss))"
    by (auto simp: scan_symbols_Cons split: option.splits)
  then show ?case
  proof cases
    case head
    then show ?thesis by (auto dest: analyze_stock_SomeD)
  next
    case tail
    with Cons.IH show ?thesis by auto
  qed
qed

lemma scan_symbols_skip:
  assumes "analyze_stock lib yf s ad = (None, written)"
  shows "scan_symbols lib yf ad (before @ s # after) =
           (fst (scan_symbols lib yf ad before) @ fst (scan_symbols lib yf ad after),
            snd (scan_symbols lib yf ad before) @ written @ snd (scan_symbols lib yf ad after))"
  using assms by (simp add: scan_symbols_append [of lib yf ad before] scan_symbols_Cons)

lemma absent_from_scan:
  assumes "fst (analyze_stock lib yf s ad) = None"
  shows "s \<notin> Symbol ` set (fst (scan_symbols lib yf ad symbols))"
proof
  assume "s \<in> Symbol ` set (fst (scan_symbols lib yf ad symbols))"
  then obtain r where r: "r \<in> set (fst (scan_symbols lib yf ad symbols))" and s: "Symbol r = s"
    by auto
  from scan_symbols_results [OF r] obtain s' where "analyze_body lib yf s' ad = Inr (Some r)"
    by blast
  with analyze_body_SomeD [OF this] s have "analyze_body lib yf s ad = Inr (Some r)"
    by auto
  with assms show False by (simp add: analyze_stock_def)
qed

lemma run_scan_cong:
  assumes "scan_symbols lib yf ad xs = scan_symbols lib yf ad ys"
  shows "run_scan lib yf xs ad = run_scan lib yf ys ad"
  unfolding run_scan_def assms by (rule refl)

section \<open>Previous day\<close>

lemma prev_day_sorted:
  assumes "sorted_wrt (<) (map Date data)" and "data \<noteq> []"
  shows "prev_day data ad =
           Inr (if prior_bars data ad = [] then None else Some (last (prior_bars data ad)))"
proof -
  from assms(2) obtain b bs where data: "data = b # bs" by (cases data) auto
  from assms(1) have least: "\<forall>y \<in> set bs. Date b < Date y"
    by (simp add: data)
  have i0: "iloc (map Date data) 0 = Inr (Date b)"
    by (simp add: iloc_def data)
  show ?thesis
  proof (cases "Date b < ad")
    case True
    then have ne: "prior_bars data ad \<noteq> []" by (simp add: prior_bars_def data)
    then have "iloc (prior_bars data ad) (- 1) = Inr (last (prior_bars data ad))"
      by (cases "prior_bars data ad" rule: rev_cases) (simp_all add: iloc_def)
    with True ne i0 show ?thesis
      by (simp add: prev_day_def bnd_def prior_bars_def)
  next
    case False
    with least have "prior_bars data ad = []"
      by (auto simp: prior_bars_def data filter_empty_conv)
    with False i0 show ?thesis
      by (simp add: prev_day_def bnd_def)
  qed
qed

section \<open>The script\<close>

lemma loc_after_check:
  "index_contains df d \<Longrightarrow> \<exists>b. loc df d = Inr b \<and> b \<in> set df \<and> Date b = d"
  using loc_total [of df d] by (auto dest: loc_InrD)

lemma run_scan_outcomes:
  assumes "yf ''^NSEI'' ad (ad + 1) = Inr index_data" and "loc index_data ad = Inr idx"
  shows "run_scan lib yf symbols ad =
           (if fst (scan_symbols lib yf ad symbols) \<noteq> []
            then Tables (idx_pct_change_of idx) (fst (scan_symbols lib yf ad symbols))
                   (btst_stocks (idx_pct_change_of idx) (fst (scan_symbols lib yf ad symbols)))
                   (snd (scan_symbols lib yf ad symbols))
            else No_Results (snd (scan_symbols lib yf ad symbols)))"
  using assms loc_index_contains [OF assms(2)]
  by (simp add: run_scan_def Let_def split: prod.splits)

lemma run_scan_crash:
  assumes "run_scan lib yf symbols ad = Crashed x"
  shows "yf ''^NSEI'' ad (ad + 1) = Inl x"
proof (cases "yf ''^NSEI'' ad (ad + 1)")
  case (Inl e)
  with assms show ?thesis by (simp add: run_scan_def)
next
  case (Inr index_data)
  show ?thesis
  proof (cases "index_contains index_data ad")
    case True
    then obtain idx where "loc index_data ad = Inr idx" using loc_total by blast
    from run_scan_outcomes [where yf = yf and lib = lib and symbols = symbols, OF Inr this] assms show ?thesis
      by (simp split: if_splits)
  next
    case False
    with Inr assms show ?thesis by (simp add: run_scan_def)
  qed
qed

section \<open>The sample market, evaluated\<close>

lemmas sample_defs =
  sample_provider_def sample_history_def flat_bar_def sample_lib_def
  bnd_def index_contains_def loc_def prev_day_def iloc_def avg_volume_def rolling_mean_def
  iloc_last_def getitem_def pct_change_def pct_close_near_high_def close_above_prev_high_def
  volume_spike_def intraday_range_pct_def np_div_def

lemma sample_X_window: "sample_provider ''X'' (12 - 60) (12 + 1) = Inr sample_X_rows"
  by (simp add: sample_provider_def sample_history_def sample_X_rows_def flat_bar_def)

lemma sample_X_ok: "window_ok sample_X_rows (12 - 60) (12 + 1)"
  by (simp add: window_ok_def sample_X_rows_def flat_bar_def)

lemma sample_X_loc:
  "loc sample_X_rows 12 =
     Inr \<lparr>Date = 12, Open = 100, High = 110, Low = 98, Close = 108, Volume = 500000\<rparr>"
  by (simp add: loc_def sample_X_rows_def flat_bar_def)

lemma sample_X_prior:
  "prior_bars sample_X_rows 12 =
     [flat_bar 1 999999, flat_bar 2 200000, flat_bar 3 200000, flat_bar 4 200000,
      flat_bar 5 200000, flat_bar 6 200000, flat_bar 7 200000, flat_bar 8 200000,
      flat_bar 9 200000, flat_bar 10 200000, flat_bar 11 200000]"
  by (simp add: prior_bars_def sample_X_rows_def flat_bar_def)

lemma sample_X_body:
  "analyze_body sample_lib sample_provider ''X'' 12 = Inr (Some sample_X_record)"
  unfolding analyze_body_def sample_X_record_def by (simp add: sample_defs)

lemma sample_Q_body:
  "analyze_body sample_lib sample_provider ''Q'' 12 = Inr (Some sample_Q_record)"
  unfolding analyze_body_def sample_Q_record_def by (simp add: sample_defs)

lemma sample_Y_window:
  "sample_provider ''Y'' (12 - 60) (12 + 1) = Inr [flat_bar 10 1000, flat_bar 11 1000]"
  by (simp add: sample_provider_def sample_history_def flat_bar_def)

lemma sample_Z_window: "sample_provider ''Z'' (12 - 60) (12 + 1) = Inr [flat_bar 12 1000]"
  by (simp add: sample_provider_def sample_history_def flat_bar_def)

lemma sample_BAD_body:
  "analyze_body lib sample_provider ''BAD'' 12 = Inl (Exn ProviderError ''download failed'')"
  by (simp add: analyze_body_def sample_provider_def bnd_def)

lemma sample_index_12:
  "sample_provider ''^NSEI'' 12 (12 + 1) =
     Inr [\<lparr>Date = 12, Open = 20000, High = 20200, Low = 19950, Close = 20100, Volume = 0\<rparr>]"
  by (simp add: sample_provider_def sample_history_def)

lemma sample_index_14: "sample_provider ''^NSEI'' 14 (14 + 1) = Inr []"
  by (simp add: sample_provider_def sample_history_def)

lemma falling_index_12:
  "falling_provider ''^NSEI'' 12 (12 + 1) =
     Inr [\<lparr>Date = 12, Open = 20000, High = 20050, Low = 19900, Close = 19940, Volume = 0\<rparr>]"
  by (simp add: falling_provider_def)

lemma falling_provider_symbol:
  "symbol \<noteq> ''^NSEI'' \<Longrightarrow>
     analyze_body lib falling_provider symbol ad = analyze_body lib sample_provider symbol ad"
  by (simp add: analyze_body_def falling_provider_def)

lemma sample_scan:
  "scan_symbols sample_lib sample_provider 12 [''X'', ''Y'', ''Z'', ''BAD'', ''Q''] =
     ([sample_X_record, sample_Q_record],
      [''Error analyzing Z: single positional indexer is out-of-bounds'',
       ''Error analyzing BAD: download failed''])"
proof -
  have Y: "analyze_body sample_lib sample_provider ''Y'' 12 = Inr None"
    by (simp add: analyze_body_def sample_Y_window [simplified] bnd_def index_contains_def flat_bar_def)
  have Z: "analyze_body sample_lib sample_provider ''Z'' 12 =
      Inl (Exn IndexError ''single positional indexer is out-of-bounds'')"
    by (simp add: analyze_body_def sample_Z_window [simplified] bnd_def index_contains_def flat_bar_def
        loc_def prev_day_def iloc_def avg_volume_single)
  show ?thesis
    by (simp add: scan_symbols_Cons scan_symbols_Nil analyze_stock_def error_message_def
        sample_X_body Y Z sample_BAD_body sample_Q_body)
qed

lemma falling_scan:
  "scan_symbols sample_lib falling_provider 12 [''X'', ''Y'', ''Z'', ''BAD'', ''Q''] =
     scan_symbols sample_lib sample_provider 12 [''X'', ''Y'', ''Z'', ''BAD'', ''Q'']"
  by (simp add: scan_symbols_Cons scan_symbols_Nil analyze_stock_def falling_provider_symbol)

lemma sample_run:
  "run_scan sample_lib sample_provider [''X'', ''Y'', ''Z'', ''BAD'', ''Q''] 12 =
     Tables (Fin (1 / 2)) [sample_X_record, sample_Q_record] [sample_X_record]
       [''Error analyzing Z: single positional indexer is out-of-bounds'',
        ''Error analyzing BAD: download failed'']"
  by (simp add: run_scan_def Let_def sample_index_12 [simplified] sample_scan index_contains_def loc_def
      idx_pct_change_of_def np_div_def btst_stocks_def btst_criteria_def
      sample_X_record_def sample_Q_record_def)

lemma falling_run:
  "run_scan sample_lib falling_provider [''X'', ''Y'', ''Z'', ''BAD'', ''Q''] 12 =
     Tables (Fin (- (3 / 10))) [sample_X_record, sample_Q_record] []
       [''Error analyzing Z: single positional indexer is out-of-bounds'',
        ''Error analyzing BAD: download failed'']"
  by (simp add: run_scan_def Let_def falling_index_12 [simplified] falling_scan sample_scan index_contains_def
      loc_def idx_pct_change_of_def np_div_def btst_stocks_def btst_criteria_def
      sample_X_record_def sample_Q_record_def)

section \<open>Claim C1: the candidate filter\<close>

text \<open>
  Claim C1. Whenever a scan ends with its two tables, a record is in the candidate table if
  and only if it is in the full table and all five clauses hold with the literal thresholds:
  \<^verbatim>\<open>% Price Change >= 2\<close>, \<^verbatim>\<open>Volume Spike >= 2\<close>, \<^verbatim>\<open>% Close Near High >= 70\<close>,
  \<^verbatim>\<open>Close > Prev High\<close> true, and the scan's index percent change \<open>>= 0\<close>. The candidates are
  therefore a subset of the full table, and the index clause treats every record of the scan
  alike: when it holds the candidates are the rows passing the four per-symbol clauses, when
  it fails there is no candidate at all.
\<close>

theorem candidate_iff_five_clauses:
  assumes "run_scan lib yf symbols ad = Tables idx full candidates written"
  shows "(r \<in> set candidates \<longleftrightarrow>
            r \<in> set full \<and> fge (Pct_Price_Change r) 2 \<and> fge (Volume_Spike r) 2 \<and>
            fge (Pct_Close_Near_High r) 70 \<and> Close_gt_Prev_High r \<and> fge idx 0) \<and>
         set candidates \<subseteq> set full \<and>
         candidates =
           (if fge idx 0
            then filter (\<lambda>r. fge (Pct_Price_Change r) 2 \<and> fge (Volume_Spike r) 2 \<and>
                    fge (Pct_Close_Near_High r) 70 \<and> Close_gt_Prev_High r) full
            else [])"
proof -
  have c: "candidates = btst_stocks idx full"
  proof (cases "yf ''^NSEI'' ad (ad + 1)")
    case (Inl e)
    with assms show ?thesis by (simp add: run_scan_def)
  next
    case (Inr index_data)
    show ?thesis
    proof (cases "index_contains index_data ad")
      case True
      then obtain b where "loc index_data ad = Inr b" using loc_total by blast
      from run_scan_outcomes [where yf = yf and lib = lib and symbols = symbols, OF Inr this] assms show ?thesis
        by (simp split: if_splits)
    next
      case False
      with Inr assms show ?thesis by (simp add: run_scan_def)
    qed
  qed
  have crit: "btst_criteria idx =
      (\<lambda>r. fge (Pct_Price_Change r) 2 \<and> fge (Volume_Spike r) 2 \<and>
           fge (Pct_Close_Near_High r) 70 \<and> Close_gt_Prev_High r \<and> fge idx 0)"
    by (rule ext) (simp add: btst_criteria_def)
  show ?thesis
    unfolding c btst_stocks_def crit by auto
qed

theorem candidate_iff_five_clauses_witness:
  "run_scan sample_lib sample_provider [''X'', ''Y'', ''Z'', ''BAD'', ''Q''] 12 =
     Tables (Fin (1 / 2)) [sample_X_record, sample_Q_record] [sample_X_record]
       [''Error analyzing Z: single positional indexer is out-of-bounds'',
        ''Error analyzing BAD: download failed''] \<and>
   sample_X_record \<in> set [sample_X_record] \<and>
   fge (Pct_Price_Change sample_X_record) 2 \<and> fge (Volume_Spike sample_X_record) 2 \<and>
   fge (Pct_Close_Near_High sample_X_record) 70 \<and> Close_gt_Prev_High sample_X_record \<and>
   fge (Fin (1 / 2)) 0 \<and>
   sample_Q_record \<notin> set [sample_X_record] \<and>
   run_scan sample_lib falling_provider [''X'', ''Y'', ''Z'', ''BAD'', ''Q''] 12 =
     Tables (Fin (- (3 / 10))) [sample_X_record, sample_Q_record] []
       [''Error analyzing Z: single positional indexer is out-of-bounds'',
        ''Error analyzing BAD: download failed''] \<and>
   \<not> fge (Fin (- (3 / 10))) 0"
proof -
  from candidate_iff_five_clauses [OF sample_run, where r = sample_X_record]
  have x: "sample_X_record \<in> set [sample_X_record] \<longleftrightarrow>
      sample_X_record \<in> set [sample_X_record, sample_Q_record] \<and>
      fge (Pct_Price_Change sample_X_record) 2 \<and> fge (Volume_Spike sample_X_record) 2 \<and>
      fge (Pct_Close_Near_High sample_X_record) 70 \<and> Close_gt_Prev_High sample_X_record \<and>
      fge (Fin (1 / 2)) 0"
    by (rule conjunct1)
  from candidate_iff_five_clauses [OF sample_run, where r = sample_Q_record]
  have q: "sample_Q_record \<in> set [sample_X_record] \<longleftrightarrow>
      sample_Q_record \<in> set [sample_X_record, sample_Q_record] \<and>
      fge (Pct_Price_Change sample_Q_record) 2 \<and> fge (Volume_Spike sample_Q_record) 2 \<and>
      fge (Pct_Close_Near_High sample_Q_record) 70 \<and> Close_gt_Prev_High sample_Q_record \<and>
      fge (Fin (1 / 2)) 0"
    by (rule conjunct1)
  have "\<not> Close_gt_Prev_High sample_Q_record"
    by (simp add: sample_Q_record_def)
  with q have nq: "sample_Q_record \<notin> set [sample_X_record]" by blast
  from candidate_iff_five_clauses [OF falling_run, where r = sample_X_record]
  have "sample_X_record \<in> set [] \<longleftrightarrow>
      sample_X_record \<in> set [sample_X_record, sample_Q_record] \<and>
      fge (Pct_Price_Change sample_X_record) 2 \<and> fge (Volume_Spike sample_X_record) 2 \<and>
      fge (Pct_Close_Near_High sample_X_record) 70 \<and> Close_gt_Prev_High sample_X_record \<and>
      fge (Fin (- (3 / 10))) 0"
    by (rule conjunct1)
  with x have "\<not> fge (Fin (- (3 / 10))) 0" by simp
  with x nq sample_run falling_run show ?thesis by simp
qed

section \<open>Claim C2: the 10-day average volume\<close>

text \<open>
  Claim C2. When \<^verbatim>\<open>analyze_stock\<close> returns a record for a window that meets the provider's
  contract, the record's \<^verbatim>\<open>Avg Volume (10D)\<close> is the arithmetic mean of Volume over the 10 rows
  ending at the row immediately before the analysis date; the analysis day's own volume is
  not part of it. A window with fewer than 10 earlier rows has no such mean, and the record
  then holds NaN.
\<close>

theorem avg_volume_10d_is_prior_mean:
  assumes "analyze_body lib yf symbol ad = Inr (Some r)"
    and "yf symbol (ad - 60) (ad + 1) = Inr data"
    and "window_ok data (ad - 60) (ad + 1)"
  shows "(\<forall>m. mean_volume_10d_before data ad = Some m \<longrightarrow> Avg_Volume_10D r = Fin m) \<and>
         (mean_volume_10d_before data ad = None \<longrightarrow> Avg_Volume_10D r = NaN)"
proof -
  from analyze_body_SomeD [OF assms(1)] assms(2)
  have has: "index_contains data ad" and avg: "avg_volume data = Inr (Avg_Volume_10D r)"
    by auto
  from window_split [OF assms(3) has]
  obtain today where data: "data = prior_bars data ad @ [today]" by blast
  define prior where "prior = prior_bars data ad"
  have ne: "prior \<noteq> []"
  proof
    assume "prior = []"
    with data have "data = [today]" by (simp add: prior_def)
    with avg show False by (simp add: avg_volume_single)
  qed
  from data have "avg_volume data = avg_volume (prior @ [today])"
    by (simp add: prior_def)
  with avg avg_volume_snoc [OF ne, of today]
  have "Avg_Volume_10D r =
          (if length prior < 10 then NaN
           else Fin (sum_list (map Volume (drop (length prior - 10) prior)) / 10))"
    by simp
  then show ?thesis
    by (auto simp: mean_volume_10d_before_def prior_def Let_def)
qed

theorem avg_volume_10d_is_prior_mean_witness:
  "\<exists>r. analyze_body sample_lib sample_provider ''X'' 12 = Inr (Some r) \<and>
      sample_provider ''X'' (12 - 60) (12 + 1) = Inr sample_X_rows \<and>
      window_ok sample_X_rows (12 - 60) (12 + 1) \<and>
      mean_volume_10d_before sample_X_rows 12 = Some 200000 \<and>
      Avg_Volume_10D r = Fin 200000"
proof -
  from sample_X_body obtain r
    where r: "analyze_body sample_lib sample_provider ''X'' 12 = Inr (Some r)" by blast
  have m: "mean_volume_10d_before sample_X_rows 12 = Some 200000"
    by (simp add: mean_volume_10d_before_def sample_X_prior flat_bar_def)
  from avg_volume_10d_is_prior_mean [OF r sample_X_window sample_X_ok] m
  have "Avg_Volume_10D r = Fin 200000" by blast
  with r sample_X_window sample_X_ok m show ?thesis by blast
qed

section \<open>Claim C3: the MACD fields\<close>

text \<open>
  A record can only be returned when the last row of the MACD frame has a column named
  \<^verbatim>\<open>MACDs_9\<close>: that is the key line 122 reads for the signal line.
\<close>

lemma record_needs_signal_key:
  assumes "analyze_body lib yf symbol ad = Inr (Some r)"
  shows "\<exists>data macd. yf symbol (ad - 60) (ad + 1) = Inr data \<and>
           iloc_last (ta_macd lib (map Close data)) = Inr macd \<and>
           map_of macd ''MACD_12_26_9'' = Some (MACD r) \<and>
           map_of macd ''MACDs_9'' = Some (MACD_Signal r)"
proof -
  from analyze_body_SomeD [OF assms]
  obtain data macd where "yf symbol (ad - 60) (ad + 1) = Inr data"
    and "iloc_last (ta_macd lib (map Close data)) = Inr macd"
    and "getitem macd ''MACD_12_26_9'' = Inr (MACD r)"
    and "getitem macd ''MACDs_9'' = Inr (MACD_Signal r)"
    by blast
  then show ?thesis
    by (auto simp: getitem_def split: option.splits)
qed

text \<open>
  Claim C3, evaluated on a library that names the columns of the MACD(12,26,9) frame with
  the full parameter suffix, the way line 121 expects for the MACD line. Symbol \<open>X\<close> has a row
  on the analysis date and every other step succeeds, yet line 122 raises
  \<^verbatim>\<open>KeyError: 'MACDs_9'\<close>; the handler of line 128 turns it into \<^verbatim>\<open>None\<close>, and the scan ends
  without any record.
\<close>

theorem macd_signal_key_error:
  "analyze_body suffixed_lib sample_provider ''X'' 12 = Inl (key_error ''MACDs_9'') \<and>
   analyze_stock suffixed_lib sample_provider ''X'' 12 =
     (None, [''Error analyzing X: '' @ [CHR 0x27] @ ''MACDs_9'' @ [CHR 0x27]]) \<and>
   run_scan suffixed_lib sample_provider [''X''] 12 =
     No_Results [''Error analyzing X: '' @ [CHR 0x27] @ ''MACDs_9'' @ [CHR 0x27]]"
proof -
  have body: "analyze_body suffixed_lib sample_provider ''X'' 12 = Inl (key_error ''MACDs_9'')"
    unfolding analyze_body_def by (simp add: suffixed_lib_def sample_defs)
  then have stock: "analyze_stock suffixed_lib sample_provider ''X'' 12 =
      (None, [''Error analyzing X: '' @ [CHR 0x27] @ ''MACDs_9'' @ [CHR 0x27]])"
    by (simp add: analyze_stock_def error_message_def key_error_def)
  then have "run_scan suffixed_lib sample_provider [''X''] 12 =
      No_Results [''Error analyzing X: '' @ [CHR 0x27] @ ''MACDs_9'' @ [CHR 0x27]]"
    by (simp add: run_scan_def Let_def sample_index_12 [simplified] index_contains_def loc_def
        scan_symbols_Cons scan_symbols_Nil)
  with body stock show ?thesis by blast
qed

section \<open>Claim C4: close near high\<close>

text \<open>
  Claim C4. For a bar with \<open>0 \<le> Low \<le> Close \<le> High\<close>, the value line 87 computes is
  \<open>(Close - Low) / (High - Low) * 100\<close>, a number between 0 and 100, when \<open>High > Low\<close>, and it
  is exactly 0 when \<open>High = Low\<close>.
\<close>

theorem pct_close_near_high_valid_bar:
  assumes "0 \<le> Low b" and "Low b \<le> Close b" and "Close b \<le> High b"
  shows "(Low b < High b \<longrightarrow>
            pct_close_near_high b = Fin ((Close b - Low b) / (High b - Low b) * 100) \<and>
            0 \<le> (Close b - Low b) / (High b - Low b) * 100 \<and>
            (Close b - Low b) / (High b - Low b) * 100 \<le> 100) \<and>
         (High b = Low b \<longrightarrow> pct_close_near_high b = Fin 0)"
proof (intro conjI impI)
  assume lt: "Low b < High b"
  then show "pct_close_near_high b = Fin ((Close b - Low b) / (High b - Low b) * 100)"
    by (simp add: pct_close_near_high_def np_div_def)
  from lt assms show "0 \<le> (Close b - Low b) / (High b - Low b) * 100"
    by simp
  from lt assms have "(Close b - Low b) / (High b - Low b) \<le> 1"
    by (simp add: divide_le_eq_1)
  moreover have "q * 100 \<le> 100" if "q \<le> 1" for q :: real
    using that by simp
  ultimately show "(Close b - Low b) / (High b - Low b) * 100 \<le> 100"
    by blast
next
  assume "High b = Low b"
  then show "pct_close_near_high b = Fin 0"
    by (simp add: pct_close_near_high_def)
qed

theorem pct_close_near_high_valid_bar_witness:
  "pct_close_near_high
     \<lparr>Date = 12, Open = 100, High = 110, Low = 98, Close = 108, Volume = 500000\<rparr>
     = Fin (250 / 3) \<and>
   pct_close_near_high
     \<lparr>Date = 12, Open = 100, High = 100, Low = 100, Close = 100, Volume = 0\<rparr> = Fin 0"
  using
    pct_close_near_high_valid_bar
      [of "\<lparr>Date = 12, Open = 100, High = 110, Low = 98, Close = 108, Volume = 500000\<rparr>"]
    pct_close_near_high_valid_bar
      [of "\<lparr>Date = 12, Open = 100, High = 100, Low = 100, Close = 100, Volume = 0\<rparr>"]
  by simp

section \<open>Claim C5: volume spike\<close>

text \<open>
  Claim C5. In every record \<^verbatim>\<open>analyze_stock\<close> returns, \<^verbatim>\<open>Volume Spike\<close> is today's Volume
  divided by the stored 10-day average when that average is a positive number, and exactly
  0 whenever the average is not positive (zero, or NaN); the stored average is never
  infinite, so no division by a non-positive denominator takes place.
\<close>

theorem volume_spike_guarded:
  assumes "analyze_body lib yf symbol ad = Inr (Some r)"
  shows "(\<forall>a. Avg_Volume_10D r = Fin a \<and> 0 < a \<longrightarrow>
             Volume_Spike r = Fin (Volume_today r / a)) \<and>
         (\<not> fgt (Avg_Volume_10D r) 0 \<longrightarrow> Volume_Spike r = Fin 0) \<and>
         (Avg_Volume_10D r = NaN \<or> (\<exists>a. Avg_Volume_10D r = Fin a))"
proof -
  from analyze_body_SomeD [OF assms]
  obtain data today where avg: "avg_volume data = Inr (Avg_Volume_10D r)"
    and spike: "Volume_Spike r = volume_spike today (Avg_Volume_10D r)"
    and vol: "Volume_today r = Volume today"
    by auto
  from avg_volume_cases [OF avg] spike vol show ?thesis
    by (auto simp: volume_spike_def np_div_def)
qed

theorem volume_spike_guarded_witness:
  "(\<exists>r. analyze_body sample_lib sample_provider ''X'' 12 = Inr (Some r) \<and>
        Avg_Volume_10D r = Fin 200000 \<and> Volume_today r = 500000 \<and>
        Volume_Spike r = Fin (5 / 2)) \<and>
   (\<exists>r. analyze_body sample_lib sample_provider ''Q'' 12 = Inr (Some r) \<and>
        Avg_Volume_10D r = Fin 0 \<and> Volume_Spike r = Fin 0)"
proof -
  obtain r where r: "analyze_body sample_lib sample_provider ''X'' 12 = Inr (Some r)"
    and avg: "Avg_Volume_10D r = Fin 200000" and vol: "Volume_today r = 500000"
    using sample_X_body by (simp add: sample_X_record_def)
  from volume_spike_guarded [OF r] avg vol
  have "Volume_Spike r = Fin (5 / 2)" by simp
  moreover
  obtain q where q: "analyze_body sample_lib sample_provider ''Q'' 12 = Inr (Some q)"
    and avg0: "Avg_Volume_10D q = Fin 0"
    using sample_Q_body by (simp add: sample_Q_record_def)
  from volume_spike_guarded [OF q] avg0
  have "Volume_Spike q = Fin 0" by simp
  ultimately show ?thesis using r avg vol q avg0 by blast
qed

section \<open>Claim C6: close above the previous high\<close>

text \<open>
  Claim C6. For a window in date order that holds a row for the analysis date, line 83 finds
  the last row strictly before that date (or \<^verbatim>\<open>None\<close>), and the flag of line 88 is true
  exactly when such a row exists and today's Close is strictly greater than its High; in
  particular it is false when the window has no earlier row. Every record returned for the
  window stores that flag.
\<close>

theorem close_above_prev_high_correct:
  assumes "yf symbol (ad - 60) (ad + 1) = Inr data"
    and "sorted_wrt (<) (map Date data)"
    and "loc data ad = Inr today"
  shows "\<exists>prev. prev_day data ad = Inr prev \<and>
           (close_above_prev_high today prev \<longleftrightarrow>
              prior_bars data ad \<noteq> [] \<and> High (last (prior_bars data ad)) < Close today) \<and>
           (\<forall>r. analyze_body lib yf symbol ad = Inr (Some r) \<longrightarrow>
              Close_gt_Prev_High r = close_above_prev_high today prev \<and>
              Close_today r = Close today)"
proof -
  from assms(3) have ne: "data \<noteq> []" by (auto dest: loc_InrD)
  let ?prev = "if prior_bars data ad = [] then None else Some (last (prior_bars data ad))"
  have p: "prev_day data ad = Inr ?prev"
    by (rule prev_day_sorted [OF assms(2) ne])
  have "close_above_prev_high today ?prev \<longleftrightarrow>
          prior_bars data ad \<noteq> [] \<and> High (last (prior_bars data ad)) < Close today"
    by (simp add: close_above_prev_high_def)
  moreover have "Close_gt_Prev_High r = close_above_prev_high today ?prev \<and>
      Close_today r = Close today"
    if "analyze_body lib yf symbol ad = Inr (Some r)" for r
    using analyze_body_SomeD [OF that] assms(1,3) p by auto
  ultimately show ?thesis using p by blast
qed

theorem close_above_prev_high_correct_witness:
  "(\<exists>prev r. prev_day sample_X_rows 12 = Inr prev \<and>
       High (last (prior_bars sample_X_rows 12)) = 105 \<and>
       close_above_prev_high
         \<lparr>Date = 12, Open = 100, High = 110, Low = 98, Close = 108, Volume = 500000\<rparr> prev \<and>
       analyze_body sample_lib sample_provider ''X'' 12 = Inr (Some r) \<and>
       Close_gt_Prev_High r \<and> Close_today r = 108) \<and>
   (\<exists>prev. prev_day [flat_bar 12 1000] 12 = Inr prev \<and>
       prior_bars [flat_bar 12 1000] 12 = [] \<and>
       \<not> close_above_prev_high (flat_bar 12 1000) prev)"
proof -
  have sorted_X: "sorted_wrt (<) (map Date sample_X_rows)"
    using sample_X_ok by (simp add: window_ok_def)
  have prior_X: "prior_bars sample_X_rows 12 \<noteq> [] \<and>
      High (last (prior_bars sample_X_rows 12)) = 105"
    by (simp add: sample_X_prior flat_bar_def)
  from close_above_prev_high_correct
    [where yf = sample_provider and symbol = "''X''" and ad = 12 and lib = sample_lib,
     OF sample_X_window sorted_X sample_X_loc]
  obtain prev where p: "prev_day sample_X_rows 12 = Inr prev"
    and flag: "close_above_prev_high
        \<lparr>Date = 12, Open = 100, High = 110, Low = 98, Close = 108, Volume = 500000\<rparr> prev \<longleftrightarrow>
        prior_bars sample_X_rows 12 \<noteq> [] \<and> High (last (prior_bars sample_X_rows 12)) < 108"
    and stored: "\<forall>r. analyze_body sample_lib sample_provider ''X'' 12 = Inr (Some r) \<longrightarrow>
        Close_gt_Prev_High r =
          close_above_prev_high
            \<lparr>Date = 12, Open = 100, High = 110, Low = 98, Close = 108, Volume = 500000\<rparr> prev \<and>
        Close_today r = 108"
    by auto
  from flag prior_X have t: "close_above_prev_high
      \<lparr>Date = 12, Open = 100, High = 110, Low = 98, Close = 108, Volume = 500000\<rparr> prev"
    by simp
  from sample_X_body obtain r
    where r: "analyze_body sample_lib sample_provider ''X'' 12 = Inr (Some r)" by blast
  with stored t have "Close_gt_Prev_High r \<and> Close_today r = 108" by blast
  with p prior_X t r have first: "\<exists>prev r. prev_day sample_X_rows 12 = Inr prev \<and>
       High (last (prior_bars sample_X_rows 12)) = 105 \<and>
       close_above_prev_high
         \<lparr>Date = 12, Open = 100, High = 110, Low = 98, Close = 108, Volume = 500000\<rparr> prev \<and>
       analyze_body sample_lib sample_provider ''X'' 12 = Inr (Some r) \<and>
       Close_gt_Prev_High r \<and> Close_today r = 108"
    by blast
  have sorted_Z: "sorted_wrt (<) (map Date [flat_bar 12 1000])" by simp
  have loc_Z: "loc [flat_bar 12 1000] 12 = Inr (flat_bar 12 1000)"
    by (simp add: loc_def flat_bar_def)
  have prior_Z: "prior_bars [flat_bar 12 1000] 12 = []"
    by (simp add: prior_bars_def flat_bar_def)
  from close_above_prev_high_correct
    [where yf = sample_provider and symbol = "''Z''" and ad = 12 and lib = sample_lib,
     OF sample_Z_window sorted_Z loc_Z] prior_Z
  have "\<exists>prev. prev_day [flat_bar 12 1000] 12 = Inr prev \<and>
       prior_bars [flat_bar 12 1000] 12 = [] \<and>
       \<not> close_above_prev_high (flat_bar 12 1000) prev"
    by auto
  with first show ?thesis by blast
qed

section \<open>Claim C7: a symbol without a row on the analysis date\<close>

text \<open>
  Claim C7. When the window fetched for a symbol has no row whose date equals the analysis
  date, \<^verbatim>\<open>analyze_stock\<close> returns \<^verbatim>\<open>None\<close> and writes nothing; the symbol is in neither the
  full table nor the candidates, and the scan goes on: with the symbol anywhere in the input
  list, the loop and the whole run give what they give without it.
\<close>

theorem no_bar_symbol_is_dropped:
  assumes "yf symbol (ad - 60) (ad + 1) = Inr data" and "\<not> index_contains data ad"
  shows "analyze_stock lib yf symbol ad = (None, []) \<and>
         symbol \<notin> Symbol ` set (fst (scan_symbols lib yf ad symbols)) \<and>
         symbol \<notin> Symbol ` set (btst_stocks idx (fst (scan_symbols lib yf ad symbols))) \<and>
         scan_symbols lib yf ad (before @ symbol # after) =
           scan_symbols lib yf ad (before @ after) \<and>
         run_scan lib yf (before @ symbol # after) ad = run_scan lib yf (before @ after) ad"
proof -
  from assms have body: "analyze_body lib yf symbol ad = Inr None"
    by (simp add: analyze_body_def bnd_def)
  then have stock: "analyze_stock lib yf symbol ad = (None, [])"
    by (simp add: analyze_stock_def)
  then have absent: "symbol \<notin> Symbol ` set (fst (scan_symbols lib yf ad symbols))"
    by (intro absent_from_scan) simp
  then have "symbol \<notin> Symbol ` set (btst_stocks idx (fst (scan_symbols lib yf ad symbols)))"
    by (auto simp: btst_stocks_def)
  moreover have skip: "scan_symbols lib yf ad (before @ symbol # after) =
      scan_symbols lib yf ad (before @ after)"
    by (simp add: scan_symbols_skip [OF stock] scan_symbols_append [of lib yf ad before after])
  moreover note stock absent run_scan_cong [OF skip]
  ultimately show ?thesis by blast
qed

theorem no_bar_symbol_is_dropped_witness:
  "sample_provider ''Y'' (12 - 60) (12 + 1) = Inr [flat_bar 10 1000, flat_bar 11 1000] \<and>
   \<not> index_contains [flat_bar 10 1000, flat_bar 11 1000] 12 \<and>
   analyze_stock sample_lib sample_provider ''Y'' 12 = (None, []) \<and>
   ''Y'' \<notin> Symbol ` set (fst (scan_symbols sample_lib sample_provider 12
             [''X'', ''Y'', ''Z'', ''BAD'', ''Q''])) \<and>
   scan_symbols sample_lib sample_provider 12 ([''X''] @ ''Y'' # [''Z'', ''BAD'', ''Q'']) =
     scan_symbols sample_lib sample_provider 12 ([''X''] @ [''Z'', ''BAD'', ''Q'']) \<and>
   map Symbol (fst (scan_symbols sample_lib sample_provider 12
     [''X'', ''Y'', ''Z'', ''BAD'', ''Q''])) = [''X'', ''Q'']"
proof -
  have no: "\<not> index_contains [flat_bar 10 1000, flat_bar 11 1000] 12"
    by (simp add: index_contains_def flat_bar_def)
  have "map Symbol (fst (scan_symbols sample_lib sample_provider 12
     [''X'', ''Y'', ''Z'', ''BAD'', ''Q''])) = [''X'', ''Q'']"
    by (simp add: sample_scan sample_X_record_def sample_Q_record_def)
  with no sample_Y_window
    no_bar_symbol_is_dropped
      [where yf = sample_provider and symbol = "''Y''" and ad = 12 and lib = sample_lib
         and symbols = "[''X'', ''Y'', ''Z'', ''BAD'', ''Q'']"
         and before = "[''X'']" and after = "[''Z'', ''BAD'', ''Q'']",
       OF sample_Y_window no]
  show ?thesis by blast
qed

section \<open>Claim C8: exceptions stay inside the analyzer\<close>

text \<open>
  Claim C8. Whatever exception the fetch or the computation for a symbol raises,
  \<^verbatim>\<open>analyze_stock\<close> catches it, writes one line naming the symbol and the exception's message,
  and returns \<^verbatim>\<open>None\<close>, the outcome of a missing row. The loop goes on with the symbols
  before and after it, the symbol is absent from the table, and a run can only end in an
  uncaught exception when the fetch of the index itself (line 56, outside the analyzer)
  raises.
\<close>

theorem analyzer_failure_is_isolated:
  assumes "analyze_body lib yf symbol ad = Inl e"
  shows "analyze_stock lib yf symbol ad =
           (None, [''Error analyzing '' @ symbol @ '': '' @ str_exn e]) \<and>
         scan_symbols lib yf ad (before @ symbol # after) =
           (fst (scan_symbols lib yf ad before) @ fst (scan_symbols lib yf ad after),
            snd (scan_symbols lib yf ad before) @
              [''Error analyzing '' @ symbol @ '': '' @ str_exn e] @
              snd (scan_symbols lib yf ad after)) \<and>
         symbol \<notin> Symbol ` set (fst (scan_symbols lib yf ad symbols)) \<and>
         (\<forall>x. run_scan lib yf symbols ad = Crashed x \<longrightarrow> yf ''^NSEI'' ad (ad + 1) = Inl x)"
proof -
  from assms have stock: "analyze_stock lib yf symbol ad =
      (None, [''Error analyzing '' @ symbol @ '': '' @ str_exn e])"
    by (simp add: analyze_stock_def error_message_def)
  then have "symbol \<notin> Symbol ` set (fst (scan_symbols lib yf ad symbols))"
    by (intro absent_from_scan) simp
  with stock scan_symbols_skip [OF stock, of before after] show ?thesis
    by (auto dest: run_scan_crash)
qed

theorem analyzer_failure_is_isolated_witness:
  "analyze_body sample_lib sample_provider ''BAD'' 12 =
     Inl (Exn ProviderError ''download failed'') \<and>
   analyze_stock sample_lib sample_provider ''BAD'' 12 =
     (None, [''Error analyzing BAD: download failed'']) \<and>
   ''BAD'' \<notin> Symbol ` set (fst (scan_symbols sample_lib sample_provider 12
               [''X'', ''Y'', ''Z'', ''BAD'', ''Q''])) \<and>
   map Symbol (fst (scan_symbols sample_lib sample_provider 12
     [''X'', ''Y'', ''Z'', ''BAD'', ''Q''])) = [''X'', ''Q'']"
proof -
  have "map Symbol (fst (scan_symbols sample_lib sample_provider 12
     [''X'', ''Y'', ''Z'', ''BAD'', ''Q''])) = [''X'', ''Q'']"
    by (simp add: sample_scan sample_X_record_def sample_Q_record_def)
  with sample_BAD_body [of sample_lib]
    analyzer_failure_is_isolated
      [where symbols = "[''X'', ''Y'', ''Z'', ''BAD'', ''Q'']", OF sample_BAD_body [of sample_lib]]
  show ?thesis by simp
qed

section \<open>Claim C9: the index gate\<close>

text \<open>
  Claim C9. When the index frame fetched for \<open>[date, date + 1)\<close> has no row for the analysis
  date, the run stops with the warning of lines 58--60 and produces no table. Otherwise the
  index percent change is \<open>(Close - Open) / Open * 100\<close> of the index row of that date, and
  this one value is what the run's tables are built with.
\<close>

theorem index_gate:
  assumes "yf ''^NSEI'' ad (ad + 1) = Inr index_data"
  shows "(\<not> index_contains index_data ad \<longrightarrow>
            run_scan lib yf symbols ad = Stopped_No_Index_Data) \<and>
         (index_contains index_data ad \<longrightarrow>
            (\<exists>idx. idx \<in> set index_data \<and> Date idx = ad \<and>
               (Open idx \<noteq> 0 \<longrightarrow>
                  idx_pct_change_of idx = Fin ((Close idx - Open idx) / Open idx * 100)) \<and>
               (run_scan lib yf symbols ad =
                  Tables (idx_pct_change_of idx) (fst (scan_symbols lib yf ad symbols))
                    (btst_stocks (idx_pct_change_of idx) (fst (scan_symbols lib yf ad symbols)))
                    (snd (scan_symbols lib yf ad symbols)) \<or>
                run_scan lib yf symbols ad = No_Results (snd (scan_symbols lib yf ad symbols)))))"
proof (intro conjI impI)
  assume "\<not> index_contains index_data ad"
  with assms show "run_scan lib yf symbols ad = Stopped_No_Index_Data"
    by (simp add: run_scan_def)
next
  assume "index_contains index_data ad"
  then obtain idx where idx: "loc index_data ad = Inr idx" "idx \<in> set index_data" "Date idx = ad"
    using loc_after_check by blast
  have "Open idx \<noteq> 0 \<longrightarrow>
      idx_pct_change_of idx = Fin ((Close idx - Open idx) / Open idx * 100)"
    by (simp add: idx_pct_change_of_def np_div_def)
  with idx run_scan_outcomes [where yf = yf and lib = lib and symbols = symbols, OF assms idx(1)]
  show "\<exists>idx. idx \<in> set index_data \<and> Date idx = ad \<and>
               (Open idx \<noteq> 0 \<longrightarrow>
                  idx_pct_change_of idx = Fin ((Close idx - Open idx) / Open idx * 100)) \<and>
               (run_scan lib yf symbols ad =
                  Tables (idx_pct_change_of idx) (fst (scan_symbols lib yf ad symbols))
                    (btst_stocks (idx_pct_change_of idx) (fst (scan_symbols lib yf ad symbols)))
                    (snd (scan_symbols lib yf ad symbols)) \<or>
                run_scan lib yf symbols ad = No_Results (snd (scan_symbols lib yf ad symbols)))"
    by (intro exI [of _ idx]) (simp split: if_splits)
qed

theorem index_gate_witness:
  "sample_provider ''^NSEI'' 14 (14 + 1) = Inr [] \<and>
   run_scan sample_lib sample_provider [''X'', ''Y'', ''Z'', ''BAD'', ''Q''] 14 =
     Stopped_No_Index_Data \<and>
   idx_pct_change_of
     \<lparr>Date = 12, Open = 20000, High = 20200, Low = 19950, Close = 20100, Volume = 0\<rparr> =
     Fin (1 / 2) \<and>
   (\<exists>full candidates written.
      run_scan sample_lib sample_provider [''X'', ''Y'', ''Z'', ''BAD'', ''Q''] 12 =
        Tables (Fin (1 / 2)) full candidates written)"
proof -
  have no: "\<not> index_contains [] 14" by (simp add: index_contains_def)
  from index_gate
    [where yf = sample_provider and ad = 14 and lib = sample_lib
       and symbols = "[''X'', ''Y'', ''Z'', ''BAD'', ''Q'']", OF sample_index_14] no
  have stop: "run_scan sample_lib sample_provider [''X'', ''Y'', ''Z'', ''BAD'', ''Q''] 14 =
      Stopped_No_Index_Data"
    by blast
  have yes: "index_contains
      [\<lparr>Date = 12, Open = 20000, High = 20200, Low = 19950, Close = 20100, Volume = 0\<rparr>] 12"
    by (simp add: index_contains_def)
  from index_gate
    [where yf = sample_provider and ad = 12 and lib = sample_lib
       and symbols = "[''X'', ''Y'', ''Z'', ''BAD'', ''Q'']", OF sample_index_12] yes
  have pct: "idx_pct_change_of
      \<lparr>Date = 12, Open = 20000, High = 20200, Low = 19950, Close = 20100, Volume = 0\<rparr> =
      Fin (1 / 2)"
    by auto
  from stop pct sample_index_14 sample_run show ?thesis by simp
qed

section \<open>Claim C10: a window of one row\<close>

text \<open>
  Claim C10. When the window fetched for a symbol is the single row of the analysis date,
  line 83 passes (there is no previous day), and line 91 reads position \<open>-2\<close> of a series of
  length 1 and raises \<^verbatim>\<open>IndexError\<close>. The handler turns it into \<^verbatim>\<open>None\<close> with a written line,
  so the symbol is absent from the table; no record with a zero volume spike and a false
  close-above-previous-high is reported for it.
\<close>

theorem single_bar_window_raises:
  assumes "yf symbol (ad - 60) (ad + 1) = Inr [b]" and "Date b = ad"
  shows "prev_day [b] ad = Inr None \<and>
         avg_volume [b] = Inl (Exn IndexError ''single positional indexer is out-of-bounds'') \<and>
         analyze_body lib yf symbol ad =
           Inl (Exn IndexError ''single positional indexer is out-of-bounds'') \<and>
         analyze_stock lib yf symbol ad =
           (None, [''Error analyzing '' @ symbol @ '': single positional indexer is out-of-bounds'']) \<and>
         symbol \<notin> Symbol ` set (fst (scan_symbols lib yf ad symbols))"
proof -
  from assms(2) have prev: "prev_day [b] ad = Inr None"
    by (simp add: prev_day_def iloc_def bnd_def)
  from assms(2) have "index_contains [b] ad" and "loc [b] ad = Inr b"
    by (simp_all add: index_contains_def loc_def)
  with assms(1) prev have body: "analyze_body lib yf symbol ad =
      Inl (Exn IndexError ''single positional indexer is out-of-bounds'')"
    by (simp add: analyze_body_def bnd_def avg_volume_single)
  then have stock: "analyze_stock lib yf symbol ad =
      (None, [''Error analyzing '' @ symbol @ '': single positional indexer is out-of-bounds''])"
    by (simp add: analyze_stock_def error_message_def)
  then have "symbol \<notin> Symbol ` set (fst (scan_symbols lib yf ad symbols))"
    by (intro absent_from_scan) simp
  with prev body stock show ?thesis by (simp add: avg_volume_single)
qed

theorem single_bar_window_raises_witness:
  "sample_provider ''Z'' (12 - 60) (12 + 1) = Inr [flat_bar 12 1000] \<and>
   Date (flat_bar 12 1000) = 12 \<and>
   analyze_body sample_lib sample_provider ''Z'' 12 =
     Inl (Exn IndexError ''single positional indexer is out-of-bounds'') \<and>
   analyze_stock sample_lib sample_provider ''Z'' 12 =
     (None, [''Error analyzing Z: single positional indexer is out-of-bounds'']) \<and>
   ''Z'' \<notin> Symbol ` set (fst (scan_symbols sample_lib sample_provider 12
             [''X'', ''Y'', ''Z'', ''BAD'', ''Q'']))"
proof -
  have d: "Date (flat_bar 12 1000) = 12" by (simp add: flat_bar_def)
  from single_bar_window_raises
    [where yf = sample_provider and symbol = "''Z''" and ad = 12 and lib = sample_lib
       and symbols = "[''X'', ''Y'', ''Z'', ''BAD'', ''Q'']", OF sample_Z_window d]
    sample_Z_window d
  show ?thesis by simp
qed

end
